theory Spec2Isabelle
  imports Main "HOL-Library.Word"
begin

unbundle bit_operations_syntax

section \<open>Shared vocabulary\<close>

text \<open>
  The error values of package \<open>cache\<close> that the sources compare against, and one
  constructor for every other (hard) failure a backend may report.
\<close>

datatype cache_error =
    ErrNotFound
  | ErrKeyUnavailable
  | ErrNotCacheable
  | ErrEntryTooLarge
  | ErrFeatureNotSupported
  | ErrOther string

type_synonym bytes = "8 word list"

text \<open>
  Time. An instant is the number of nanoseconds since the Unix epoch, a \<open>time.Duration\<close> is
  a number of nanoseconds. \<open>Unix\<close> is \<open>Time.Unix()\<close> (whole seconds, rounded down) and
  \<open>Sub\<close> is \<open>Time.Sub\<close>, which saturates at the bounds of the 64-bit duration. Every
  operation below reads the clock once: the parameter \<open>now\<close> is the value of all its
  \<open>time.Now()\<close> calls.

  \<open>time_Unix\<close> is \<open>time.Unix(sec, 0)\<close>. Go keeps the seconds of a \<open>Time\<close> counted
  from the year 1: it adds \<open>unixToInternal\<close> to \<open>sec\<close> in 64-bit arithmetic, which wraps
  around. The instant that results is the one of the wrapped second count; it is
  \<open>sec\<close> seconds after the epoch exactly when the sum is an int64.
\<close>

definition Unix :: "int \<Rightarrow> int" where
  "Unix t = t div 1000000000"

definition unixToInternal :: int where
  "unixToInternal = 62135596800"

definition time_Unix :: "int \<Rightarrow> int" where
  "time_Unix sec =
     (sint (word_of_int (sec + unixToInternal) :: 64 word) - unixToInternal) * 1000000000"

definition Sub :: "int \<Rightarrow> int \<Rightarrow> int" where
  "Sub t u = max (- (2 ^ 63)) (min (2 ^ 63 - 1) (t - u))"

section \<open>The entry framing of package cachegroup\<close>

text \<open>\<open>binary.BigEndian.PutUint64\<close> and \<open>binary.BigEndian.Uint64\<close>.\<close>

definition PutUint64 :: "64 word \<Rightarrow> bytes" where
  "PutUint64 v =
     [ucast (drop_bit 56 v), ucast (drop_bit 48 v), ucast (drop_bit 40 v), ucast (drop_bit 32 v),
      ucast (drop_bit 24 v), ucast (drop_bit 16 v), ucast (drop_bit 8 v), ucast v]"

definition Uint64 :: "bytes \<Rightarrow> 64 word" where
  "Uint64 b =
     ucast (b ! 7) OR push_bit 8 (ucast (b ! 6)) OR push_bit 16 (ucast (b ! 5)) OR
     push_bit 24 (ucast (b ! 4)) OR push_bit 32 (ucast (b ! 3)) OR push_bit 40 (ucast (b ! 2)) OR
     push_bit 48 (ucast (b ! 1)) OR push_bit 56 (ucast (b ! 0))"

text \<open>
  \<open>entry.Set\<close>: the new entry is the 8-byte header \<open>uint64(expired)\<close> followed by the
  payload; the absolute expiration \<open>expired\<close> is returned. The conversion to \<open>uint64\<close>
  is \<open>word_of_int\<close>.
\<close>

definition entry_Set :: "int \<Rightarrow> bytes \<Rightarrow> int \<Rightarrow> bytes \<times> int" where
  "entry_Set now bs ttl =
     (let expired = Unix (now + ttl)
      in (PutUint64 (word_of_int expired) @ bs, expired))"

text \<open>
  \<open>entry.Get\<close>: a buffer shorter than 8 bytes and a header before the current second are
  \<open>ErrNotFound\<close>; otherwise the payload and the decoded expiration. The conversion
  \<open>int64(...)\<close> of the header is \<open>sint\<close>. The source returns a triple whose first two
  components its callers ignore when the error is set; the sum keeps the error alone.
\<close>

definition entry_Get :: "int \<Rightarrow> bytes \<Rightarrow> cache_error + (bytes \<times> int)" where
  "entry_Get now e =
     (if length e < 8 then Inl ErrNotFound
      else let expired = sint (Uint64 (take 8 e))
           in if expired < Unix now then Inl ErrNotFound
              else Inr (drop 8 e, expired))"

section \<open>The cache engine of package cache\<close>

text \<open>
  Modelled from the spec: the engine type \<open>cache.Cache\<close>, its storage driver and the
  constant \<open>cache.KeyPrefix\<close> are not among the sources; only their callers (the group
  cache, \<open>Node\<close>) and their tests are. The record holds the two fields the sources read
  (\<open>TTL\<close>, the default time to live, and the static key prefix) and the state of the
  storage driver behind the engine: value slots and counter slots keyed by final key, each
  with its deadline (\<open>None\<close>: never expires), the driver's verdict on a write (\<open>refuse\<close>:
  \<open>ErrEntryTooLarge\<close>, \<open>ErrNotCacheable\<close> or a hard failure) and a failure of the
  backend as a whole (\<open>fault\<close>). The hit and miss statistics are left out.
\<close>

record cache =
  TTL :: int
  KeyPrefix :: string
  slots :: "string \<Rightarrow> (bytes \<times> int option) option"
  counters :: "string \<Rightarrow> (int \<times> int option) option"
  refuse :: "string \<Rightarrow> bytes \<Rightarrow> cache_error option"
  fault :: "cache_error option"

text \<open>
  Modelled from the spec: the Storage Contract. A negative ttl never expires; an entry is
  readable strictly before its deadline; an update or an expire of an absent key is a
  silent no-op; a refused or failed write stores nothing.
\<close>

definition deadline :: "int \<Rightarrow> int \<Rightarrow> int option" where
  "deadline now ttl = (if ttl < 0 then None else Some (now + ttl))"

definition live :: "int \<Rightarrow> ('a \<times> int option) option \<Rightarrow> 'a option" where
  "live now s =
     (case s of
        None \<Rightarrow> None
      | Some (x, None) \<Rightarrow> Some x
      | Some (x, Some d) \<Rightarrow> if now < d then Some x else None)"

definition driver_SetBytesValue ::
  "int \<Rightarrow> cache \<Rightarrow> string \<Rightarrow> bytes \<Rightarrow> int \<Rightarrow> cache_error option \<times> cache" where
  "driver_SetBytesValue now c k bs ttl =
     (case fault c of
        Some e \<Rightarrow> (Some e, c)
      | None \<Rightarrow>
         (case refuse c k bs of
            Some e \<Rightarrow> (Some e, c)
          | None \<Rightarrow> (None, c\<lparr>slots := (slots c)(k \<mapsto> (bs, deadline now ttl))\<rparr>)))"

definition driver_UpdateBytesValue ::
  "int \<Rightarrow> cache \<Rightarrow> string \<Rightarrow> bytes \<Rightarrow> int \<Rightarrow> cache_error option \<times> cache" where
  "driver_UpdateBytesValue now c k bs ttl =
     (case fault c of
        Some e \<Rightarrow> (Some e, c)
      | None \<Rightarrow>
         (case live now (slots c k) of
            None \<Rightarrow> (None, c)
          | Some old \<Rightarrow> driver_SetBytesValue now c k bs ttl))"

definition driver_GetBytesValue :: "int \<Rightarrow> cache \<Rightarrow> string \<Rightarrow> bytes \<times> cache_error option" where
  "driver_GetBytesValue now c k =
     (case fault c of
        Some e \<Rightarrow> ([], Some e)
      | None \<Rightarrow>
         (case live now (slots c k) of
            None \<Rightarrow> ([], Some ErrNotFound)
          | Some bs \<Rightarrow> (bs, None)))"

definition driver_Del :: "cache \<Rightarrow> string \<Rightarrow> cache_error option \<times> cache" where
  "driver_Del c k =
     (case fault c of
        Some e \<Rightarrow> (Some e, c)
      | None \<Rightarrow> (None, c\<lparr>slots := (slots c)(k := None)\<rparr>))"

definition driver_Expire :: "int \<Rightarrow> cache \<Rightarrow> string \<Rightarrow> int \<Rightarrow> cache_error option \<times> cache" where
  "driver_Expire now c k ttl =
     (case fault c of
        Some e \<Rightarrow> (Some e, c)
      | None \<Rightarrow>
         (case live now (slots c k) of
            None \<Rightarrow> (None, c)
          | Some bs \<Rightarrow> (None, c\<lparr>slots := (slots c)(k \<mapsto> (bs, deadline now ttl))\<rparr>)))"

definition driver_SetCounter ::
  "int \<Rightarrow> cache \<Rightarrow> string \<Rightarrow> int \<Rightarrow> int \<Rightarrow> cache_error option \<times> cache" where
  "driver_SetCounter now c k v ttl =
     (case fault c of
        Some e \<Rightarrow> (Some e, c)
      | None \<Rightarrow> (None, c\<lparr>counters := (counters c)(k \<mapsto> (v, deadline now ttl))\<rparr>))"

definition driver_GetCounter :: "int \<Rightarrow> cache \<Rightarrow> string \<Rightarrow> int \<times> cache_error option" where
  "driver_GetCounter now c k =
     (case fault c of
        Some e \<Rightarrow> (0, Some e)
      | None \<Rightarrow>
         (case live now (counters c k) of
            None \<Rightarrow> (0, Some ErrNotFound)
          | Some v \<Rightarrow> (v, None)))"

definition driver_IncrCounter ::
  "int \<Rightarrow> cache \<Rightarrow> string \<Rightarrow> int \<Rightarrow> int \<Rightarrow> (int \<times> cache_error option) \<times> cache" where
  "driver_IncrCounter now c k increment ttl =
     (case fault c of
        Some e \<Rightarrow> ((0, Some e), c)
      | None \<Rightarrow>
         (let v = (case live now (counters c k) of None \<Rightarrow> increment | Some old \<Rightarrow> old + increment)
          in ((v, None), c\<lparr>counters := (counters c)(k \<mapsto> (v, deadline now ttl))\<rparr>)))"

definition driver_DelCounter :: "cache \<Rightarrow> string \<Rightarrow> cache_error option \<times> cache" where
  "driver_DelCounter c k =
     (case fault c of
        Some e \<Rightarrow> (Some e, c)
      | None \<Rightarrow> (None, c\<lparr>counters := (counters c)(k := None)\<rparr>))"

definition driver_ExpireCounter ::
  "int \<Rightarrow> cache \<Rightarrow> string \<Rightarrow> int \<Rightarrow> cache_error option \<times> cache" where
  "driver_ExpireCounter now c k ttl =
     (case fault c of
        Some e \<Rightarrow> (Some e, c)
      | None \<Rightarrow>
         (case live now (counters c k) of
            None \<Rightarrow> (None, c)
          | Some v \<Rightarrow> (None, c\<lparr>counters := (counters c)(k \<mapsto> (v, deadline now ttl))\<rparr>)))"

text \<open>
  Modelled from the spec: the operations of the engine (section 4.1). Every keyed
  operation validates the key when it computes the final key (static prefix followed by
  the caller's key) and replaces a zero ttl by the engine's default before it calls the
  driver.
\<close>

definition Cache_GetCacheKey :: "cache \<Rightarrow> string \<Rightarrow> cache_error + string" where
  "Cache_GetCacheKey c key = (if key = [] then Inl ErrKeyUnavailable else Inr (KeyPrefix c @ key))"

definition Cache_FinalKey :: "cache \<Rightarrow> string \<Rightarrow> string" where
  "Cache_FinalKey c key = KeyPrefix c @ key"

definition defaultTTL :: "cache \<Rightarrow> int \<Rightarrow> int" where
  "defaultTTL c ttl = (if ttl = 0 then TTL c else ttl)"

definition Cache_SetBytesValue ::
  "int \<Rightarrow> cache \<Rightarrow> string \<Rightarrow> bytes \<Rightarrow> int \<Rightarrow> cache_error option \<times> cache" where
  "Cache_SetBytesValue now c key bs ttl =
     (case Cache_GetCacheKey c key of
        Inl e \<Rightarrow> (Some e, c)
      | Inr k \<Rightarrow> driver_SetBytesValue now c k bs (defaultTTL c ttl))"

definition Cache_UpdateBytesValue ::
  "int \<Rightarrow> cache \<Rightarrow> string \<Rightarrow> bytes \<Rightarrow> int \<Rightarrow> cache_error option \<times> cache" where
  "Cache_UpdateBytesValue now c key bs ttl =
     (case Cache_GetCacheKey c key of
        Inl e \<Rightarrow> (Some e, c)
      | Inr k \<Rightarrow> driver_UpdateBytesValue now c k bs (defaultTTL c ttl))"

definition Cache_GetBytesValue :: "int \<Rightarrow> cache \<Rightarrow> string \<Rightarrow> bytes \<times> cache_error option" where
  "Cache_GetBytesValue now c key =
     (case Cache_GetCacheKey c key of
        Inl e \<Rightarrow> ([], Some e)
      | Inr k \<Rightarrow> driver_GetBytesValue now c k)"

definition Cache_Del :: "cache \<Rightarrow> string \<Rightarrow> cache_error option \<times> cache" where
  "Cache_Del c key =
     (case Cache_GetCacheKey c key of
        Inl e \<Rightarrow> (Some e, c)
      | Inr k \<Rightarrow> driver_Del c k)"

definition Cache_Expire :: "int \<Rightarrow> cache \<Rightarrow> string \<Rightarrow> int \<Rightarrow> cache_error option \<times> cache" where
  "Cache_Expire now c key ttl =
     (case Cache_GetCacheKey c key of
        Inl e \<Rightarrow> (Some e, c)
      | Inr k \<Rightarrow> driver_Expire now c k (defaultTTL c ttl))"

definition Cache_SetCounter ::
  "int \<Rightarrow> cache \<Rightarrow> string \<Rightarrow> int \<Rightarrow> int \<Rightarrow> cache_error option \<times> cache" where
  "Cache_SetCounter now c key v ttl =
     (case Cache_GetCacheKey c key of
        Inl e \<Rightarrow> (Some e, c)
      | Inr k \<Rightarrow> driver_SetCounter now c k v (defaultTTL c ttl))"

definition Cache_GetCounter :: "int \<Rightarrow> cache \<Rightarrow> string \<Rightarrow> int \<times> cache_error option" where
  "Cache_GetCounter now c key =
     (case Cache_GetCacheKey c key of
        Inl e \<Rightarrow> (0, Some e)
      | Inr k \<Rightarrow> driver_GetCounter now c k)"

definition Cache_IncrCounter ::
  "int \<Rightarrow> cache \<Rightarrow> string \<Rightarrow> int \<Rightarrow> int \<Rightarrow> (int \<times> cache_error option) \<times> cache" where
  "Cache_IncrCounter now c key increment ttl =
     (case Cache_GetCacheKey c key of
        Inl e \<Rightarrow> ((0, Some e), c)
      | Inr k \<Rightarrow> driver_IncrCounter now c k increment (defaultTTL c ttl))"

definition Cache_DelCounter :: "cache \<Rightarrow> string \<Rightarrow> cache_error option \<times> cache" where
  "Cache_DelCounter c key =
     (case Cache_GetCacheKey c key of
        Inl e \<Rightarrow> (Some e, c)
      | Inr k \<Rightarrow> driver_DelCounter c k)"

definition Cache_ExpireCounter ::
  "int \<Rightarrow> cache \<Rightarrow> string \<Rightarrow> int \<Rightarrow> cache_error option \<times> cache" where
  "Cache_ExpireCounter now c key ttl =
     (case Cache_GetCacheKey c key of
        Inl e \<Rightarrow> (Some e, c)
      | Inr k \<Rightarrow> driver_ExpireCounter now c k (defaultTTL c ttl))"

text \<open>
  Modelled from the spec: the typed operations and the load protocol of the engine. The
  codec is the \<open>Marshaler\<close> interface of \<open>marshaler.go\<close>. Like every keyed operation,
  \<open>Set\<close> and \<open>Update\<close> fail fast on an empty key; then they serialise the value and
  write the bytes. \<open>Get\<close> reads the bytes and then deserialises them. \<open>Load\<close> follows the seven steps of the protocol for one caller (the
  per-key lock of steps 3 and 4 has no effect on a single caller); an advisory error of
  the final \<open>Set\<close> is not fatal.
\<close>

record 'v Marshaler =
  Marshal :: "'v \<Rightarrow> cache_error + bytes"
  Unmarshal :: "bytes \<Rightarrow> cache_error + 'v"

definition Cache_Set ::
  "'v Marshaler \<Rightarrow> int \<Rightarrow> cache \<Rightarrow> string \<Rightarrow> 'v \<Rightarrow> int \<Rightarrow> cache_error option \<times> cache" where
  "Cache_Set m now c key v ttl =
     (case Cache_GetCacheKey c key of
        Inl e \<Rightarrow> (Some e, c)
      | Inr k \<Rightarrow>
          (case Marshal m v of
             Inl e \<Rightarrow> (Some e, c)
           | Inr bs \<Rightarrow> driver_SetBytesValue now c k bs (defaultTTL c ttl)))"

definition Cache_Update ::
  "'v Marshaler \<Rightarrow> int \<Rightarrow> cache \<Rightarrow> string \<Rightarrow> 'v \<Rightarrow> int \<Rightarrow> cache_error option \<times> cache" where
  "Cache_Update m now c key v ttl =
     (case Cache_GetCacheKey c key of
        Inl e \<Rightarrow> (Some e, c)
      | Inr k \<Rightarrow>
          (case Marshal m v of
             Inl e \<Rightarrow> (Some e, c)
           | Inr bs \<Rightarrow> driver_UpdateBytesValue now c k bs (defaultTTL c ttl)))"

definition Cache_Get :: "'v Marshaler \<Rightarrow> int \<Rightarrow> cache \<Rightarrow> string \<Rightarrow> cache_error + 'v" where
  "Cache_Get m now c key =
     (case Cache_GetBytesValue now c key of
        (bs, Some e) \<Rightarrow> Inl e
      | (bs, None) \<Rightarrow> Unmarshal m bs)"

definition Cache_Load ::
  "'v Marshaler \<Rightarrow> int \<Rightarrow> cache \<Rightarrow> string \<Rightarrow> int \<Rightarrow> (string \<Rightarrow> cache_error + 'v) \<Rightarrow>
     (cache_error + 'v) \<times> cache" where
  "Cache_Load m now c key ttl loader =
     (if key = [] then (Inl ErrKeyUnavailable, c)
      else case Cache_Get m now c key of
             Inr v \<Rightarrow> (Inr v, c)
           | Inl e \<Rightarrow>
               if e \<noteq> ErrNotFound then (Inl e, c)
               else (case Cache_Get m now c key of
                       Inr v \<Rightarrow> (Inr v, c)
                     | Inl e' \<Rightarrow>
                         if e' \<noteq> ErrNotFound then (Inl e', c)
                         else (case loader key of
                                 Inl le \<Rightarrow> (Inl le, c)
                               | Inr v \<Rightarrow>
                                   (case Cache_Set m now c key v ttl of
                                      (None, c') \<Rightarrow> (Inr v, c')
                                    | (Some se, c') \<Rightarrow>
                                        if se = ErrEntryTooLarge \<or> se = ErrNotCacheable
                                        then (Inr v, c') else (Inl se, c')))))"

section \<open>Namespacing: Node\<close>

text \<open>
  A \<open>Node\<close> holds a \<open>Cacheable\<close> (here an engine or another node) and a prefix.
  \<open>Node.GetCacheKey\<close> is \<open>n.Prefix + KeyPrefix + key\<close> and never fails;
  \<open>Node.FinalKey\<close> hands that key to the \<open>FinalKey\<close> of the wrapped cacheable. The
  package constant \<open>KeyPrefix\<close>, whose declaration is not among the sources, is the
  parameter \<open>kp\<close>.
\<close>

datatype cacheable = Engine cache | Node cacheable string

fun GetCacheKey :: "string \<Rightarrow> cacheable \<Rightarrow> string \<Rightarrow> cache_error + string" where
  "GetCacheKey kp (Engine c) key = Cache_GetCacheKey c key"
| "GetCacheKey kp (Node c prefix) key = Inr (prefix @ kp @ key)"

fun FinalKey :: "string \<Rightarrow> cacheable \<Rightarrow> string \<Rightarrow> string" where
  "FinalKey kp (Engine c) key = Cache_FinalKey c key"
| "FinalKey kp (Node c prefix) key = FinalKey kp c (prefix @ kp @ key)"

section \<open>The group cache of package cachegroup\<close>

text \<open>
  The group cache holds its tiers as pointers to engines; the tiers are taken to be
  distinct engines, so the list of their states is the state of the group. The embedded
  \<open>DriverUtil\<close> takes no part in the operations below and is left out.
\<close>

record cachegroup =
  SubCaches :: "cache list"

definition modeSet :: int where
  "modeSet = 0"

definition modeUpdate :: int where
  "modeUpdate = 1"

text \<open>
  The ttl one tier is written with in \<open>setBytesCaches\<close> (the \<open>if\<close> cascade at the head
  of the loop body): \<open>t\<close> is the remaining lifetime of the entry, \<open>vTTL\<close> the tier's
  \<open>TTL\<close>.
\<close>

definition tierTTL :: "int \<Rightarrow> int \<Rightarrow> int" where
  "tierTTL t vTTL =
     (if t < 0 then (if vTTL < 0 then - 1 else vTTL)
      else (if vTTL < 0 then t else (if vTTL < t then vTTL else t)))"

text \<open>
  The write of one tier in the loop body: with the capped ttl, by \<open>SetBytesValue\<close> in
  mode \<open>modeSet\<close> and by \<open>UpdateBytesValue\<close> in every other mode.
\<close>

definition tierWrite ::
  "int \<Rightarrow> string \<Rightarrow> bytes \<Rightarrow> int \<Rightarrow> int \<Rightarrow> cache \<Rightarrow> cache_error option \<times> cache" where
  "tierWrite now key bs t mode v =
     (let ttl = tierTTL t (TTL v)
      in if mode = modeSet then Cache_SetBytesValue now v key bs ttl
         else Cache_UpdateBytesValue now v key bs ttl)"

text \<open>
  The loop of \<open>setBytesCaches\<close> over the tiers, with \<open>finalErr\<close> as accumulator; it
  returns the last error that is neither \<open>ErrNotCacheable\<close> nor \<open>ErrEntryTooLarge\<close>
  and the tiers as the writes left them.
\<close>

fun setBytesCaches_loop ::
  "int \<Rightarrow> string \<Rightarrow> bytes \<Rightarrow> int \<Rightarrow> int \<Rightarrow> cache list \<Rightarrow> cache_error option \<Rightarrow>
     cache_error option \<times> cache list" where
  "setBytesCaches_loop now key bs t mode [] finalErr = (finalErr, [])"
| "setBytesCaches_loop now key bs t mode (v # vs) finalErr =
     (let (err, v') = tierWrite now key bs t mode v;
          finalErr' = (if err \<noteq> None \<and> err \<noteq> Some ErrNotCacheable \<and> err \<noteq> Some ErrEntryTooLarge
                       then err else finalErr);
          (r, vs') = setBytesCaches_loop now key bs t mode vs finalErr'
      in (r, v' # vs'))"

definition setBytesCaches ::
  "int \<Rightarrow> string \<Rightarrow> cache list \<Rightarrow> bytes \<Rightarrow> int \<Rightarrow> int \<Rightarrow> cache_error option \<times> cache list" where
  "setBytesCaches now key caches bs expired mode =
     setBytesCaches_loop now key bs (Sub (time_Unix expired) now) mode caches None"

text \<open>
  \<open>SetBytesValue\<close> and \<open>UpdateBytesValue\<close> of the group. Indexing the last tier of an
  empty \<open>SubCaches\<close> panics: the result is \<open>None\<close>.
\<close>

definition SetBytesValue ::
  "int \<Rightarrow> cachegroup \<Rightarrow> string \<Rightarrow> bytes \<Rightarrow> int \<Rightarrow> (cache_error option \<times> cachegroup) option" where
  "SetBytesValue now c key bs ttl =
     (if SubCaches c = [] then None
      else
        let (e, expired) = entry_Set now bs ttl;
            (err, l') = Cache_SetBytesValue now (last (SubCaches c)) key e ttl
        in if err \<noteq> Some ErrNotCacheable \<and> err \<noteq> Some ErrEntryTooLarge \<and> err \<noteq> None
           then Some (err, c\<lparr>SubCaches := butlast (SubCaches c) @ [l']\<rparr>)
           else
             let (err2, vs') = setBytesCaches now key (butlast (SubCaches c)) e expired modeSet
             in Some (err2, c\<lparr>SubCaches := vs' @ [l']\<rparr>))"

definition UpdateBytesValue ::
  "int \<Rightarrow> cachegroup \<Rightarrow> string \<Rightarrow> bytes \<Rightarrow> int \<Rightarrow> (cache_error option \<times> cachegroup) option" where
  "UpdateBytesValue now c key bs ttl =
     (if SubCaches c = [] then None
      else
        let (e, expired) = entry_Set now bs ttl;
            (err, l') = Cache_UpdateBytesValue now (last (SubCaches c)) key e ttl
        in if err \<noteq> Some ErrNotCacheable \<and> err \<noteq> Some ErrEntryTooLarge \<and> err \<noteq> None
           then Some (err, c\<lparr>SubCaches := butlast (SubCaches c) @ [l']\<rparr>)
           else
             let (err2, vs') = setBytesCaches now key (butlast (SubCaches c)) e expired modeUpdate
             in Some (err2, c\<lparr>SubCaches := vs' @ [l']\<rparr>))"

text \<open>
  The scan of \<open>GetBytesValue\<close>: \<open>bytes\<close> and \<open>err\<close> hold the answer of the tier asked
  last, \<open>expiredCache\<close> collects the tiers that answered \<open>ErrNotFound\<close>; any other
  answer leaves the loop.
\<close>

fun GetBytesValue_loop ::
  "int \<Rightarrow> string \<Rightarrow> cache list \<Rightarrow> bytes \<times> cache_error option \<Rightarrow> cache list \<Rightarrow>
     bytes \<times> cache_error option \<times> cache list" where
  "GetBytesValue_loop now key [] (bs, err) expiredCache = (bs, err, expiredCache)"
| "GetBytesValue_loop now key (v # vs) (bs, err) expiredCache =
     (let (bs', err') = Cache_GetBytesValue now v key
      in if err' = Some ErrNotFound
         then GetBytesValue_loop now key vs (bs', err') (expiredCache @ [v])
         else (bs', err', expiredCache))"

text \<open>
  \<open>GetBytesValue\<close> of the group. The tiers in \<open>expiredCache\<close> are the first tiers of
  \<open>SubCaches\<close>, so the back-fill through these pointers replaces that prefix of the
  list; its error is dropped.
\<close>

definition GetBytesValue ::
  "int \<Rightarrow> cachegroup \<Rightarrow> string \<Rightarrow> (bytes \<times> cache_error option) \<times> cachegroup" where
  "GetBytesValue now c key =
     (let (bs, err, expiredCache) = GetBytesValue_loop now key (SubCaches c) ([], None) []
      in if err \<noteq> None then (([], err), c)
         else case entry_Get now bs of
                Inl e \<Rightarrow> (([], Some e), c)
              | Inr (buf, expired) \<Rightarrow>
                  let (dropped, filled) = setBytesCaches now key expiredCache bs expired modeSet
                  in ((buf, None),
                      c\<lparr>SubCaches := filled @ drop (length expiredCache) (SubCaches c)\<rparr>))"

text \<open>\<open>Expire\<close> of the group: read the value, then write it again with the new ttl.\<close>

definition Expire ::
  "int \<Rightarrow> cachegroup \<Rightarrow> string \<Rightarrow> int \<Rightarrow> (cache_error option \<times> cachegroup) option" where
  "Expire now c key ttl =
     (let ((b, err), c') = GetBytesValue now c key
      in if err \<noteq> None then Some (err, c')
         else SetBytesValue now c' key b ttl)"

section \<open>The marshaler registry\<close>

text \<open>
  The registry \<open>marshalerFactories\<close> is a map from names to factories; it is passed in and
  returned, since the source keeps it in a package variable. A factory is a function
  without arguments whose result (a marshaler and an error) is left abstract; a \<open>nil\<close>
  factory is \<open>None\<close>. A panic of \<open>RegisterMarshaler\<close> is the left summand and carries the
  message; it leaves the registry as it was. The error of \<open>NewMarshaler\<close> for an unknown
  name is kept as the name and whether the import hint for \<open>msgpack\<close> is appended.
\<close>

datatype panic = Panic string

datatype lookup_error = UnknownMarshaler string bool

type_synonym 'r MarshalerFactory = "unit \<Rightarrow> 'r"

type_synonym 'r registry = "string \<Rightarrow> 'r MarshalerFactory option"

definition RegisterMarshaler ::
  "'r registry \<Rightarrow> string \<Rightarrow> 'r MarshalerFactory option \<Rightarrow> panic + 'r registry" where
  "RegisterMarshaler marshalerFactories name f =
     (case f of
        None \<Rightarrow> Inl (Panic ''cache: Register marshaler factory is nil'')
      | Some g \<Rightarrow>
          if marshalerFactories name \<noteq> None
          then Inl (Panic (''cache: Register marshaler twice for factory '' @ name))
          else Inr (marshalerFactories(name \<mapsto> g)))"

definition UnregisterAllMarshalers :: "'r registry \<Rightarrow> 'r registry" where
  "UnregisterAllMarshalers marshalerFactories = Map.empty"

definition NewMarshaler :: "'r registry \<Rightarrow> string \<Rightarrow> lookup_error + 'r" where
  "NewMarshaler marshalerFactories name =
     (case marshalerFactories name of
        None \<Rightarrow> Inl (UnknownMarshaler name (name = ''msgpack''))
      | Some factoryi \<Rightarrow> Inr (factoryi ()))"

section \<open>Vocabulary of the statements\<close>

text \<open>
  An error is hard when it is set and is neither of the two advisory errors: the condition
  under which \<open>SetBytesValue\<close> returns at once and \<open>setBytesCaches\<close> records the error.
  \<open>lastHard\<close> is the last hard error of a list of answers, if there is one.
\<close>

definition hard :: "cache_error option \<Rightarrow> bool" where
  "hard err = (err \<noteq> None \<and> err \<noteq> Some ErrNotCacheable \<and> err \<noteq> Some ErrEntryTooLarge)"

definition lastHard :: "cache_error option list \<Rightarrow> cache_error option" where
  "lastHard errs = (if filter hard errs = [] then None else last (filter hard errs))"

text \<open>A tier misses a key when its \<open>GetBytesValue\<close> answers \<open>ErrNotFound\<close>.\<close>

definition miss :: "int \<Rightarrow> string \<Rightarrow> cache \<Rightarrow> bool" where
  "miss now key v = (snd (Cache_GetBytesValue now v key) = Some ErrNotFound)"

text \<open>
  The fixtures of the tests: \<open>newTestCache\<close> is a flushed engine over a driver that accepts
  every write, with its default ttl given in seconds; \<open>NewEntiyTooLargeCache\<close> is the same
  over a driver of size 1, which refuses every longer entry; \<open>brokenTestCache\<close> is the same
  over a driver whose writes fail; \<open>failingMarshaler\<close> is a codec that cannot serialise
  the value it is given.
\<close>

definition newTestCache :: "string \<Rightarrow> int \<Rightarrow> cache" where
  "newTestCache kp ttl =
     \<lparr>TTL = ttl * 1000000000, KeyPrefix = kp, slots = (\<lambda>k. None), counters = (\<lambda>k. None),
      refuse = (\<lambda>k bs. None), fault = None\<rparr>"

definition NewEntiyTooLargeCache :: "string \<Rightarrow> int \<Rightarrow> cache" where
  "NewEntiyTooLargeCache kp ttl =
     (newTestCache kp ttl)\<lparr>refuse := (\<lambda>k bs. if 1 < length bs then Some ErrEntryTooLarge else None)\<rparr>"

definition brokenTestCache :: "string \<Rightarrow> int \<Rightarrow> cache" where
  "brokenTestCache kp ttl = (newTestCache kp ttl)\<lparr>refuse := (\<lambda>k bs. Some (ErrOther ''io''))\<rparr>"

text \<open>
  Two tiers that never expire at the backend and hold an entry for key \<open>k\<close> written at
  instant 0: the header of \<open>staleTier\<close> expires after one second, that of \<open>freshTier\<close>
  after a hundred seconds.
\<close>

definition staleTier :: cache where
  "staleTier =
     snd (Cache_SetBytesValue 0 (newTestCache ''p'' (- 1)) ''k''
            (fst (entry_Set 0 [7] 1000000000)) (- 1))"

definition freshTier :: cache where
  "freshTier =
     snd (Cache_SetBytesValue 0 (newTestCache ''p'' (- 1)) ''k''
            (fst (entry_Set 0 [7] 100000000000)) (- 1))"

text \<open>
  \<open>holdingKey c\<close> is the engine \<open>c\<close> whose backend already holds one byte under the
  key \<open>k\<close>, without a deadline.
\<close>

definition holdingKey :: "cache \<Rightarrow> cache" where
  "holdingKey c = c\<lparr>slots := (slots c)(KeyPrefix c @ ''k'' \<mapsto> ([1], None))\<rparr>"

definition failingMarshaler :: "bytes Marshaler" where
  "failingMarshaler =
     \<lparr>Marshal = (\<lambda>v. Inl (ErrOther ''unsupported type'')), Unmarshal = (\<lambda>b. Inr b)\<rparr>"

section \<open>Properties of the entry framing\<close>

lemma PutUint64_nth:
  "(PutUint64 v @ bs) ! 0 = ucast (drop_bit 56 v)"
  "(PutUint64 v @ bs) ! 1 = ucast (drop_bit 48 v)"
  "(PutUint64 v @ bs) ! Suc 0 = ucast (drop_bit 48 v)"
  "(PutUint64 v @ bs) ! 2 = ucast (drop_bit 40 v)"
  "(PutUint64 v @ bs) ! 3 = ucast (drop_bit 32 v)"
  "(PutUint64 v @ bs) ! 4 = ucast (drop_bit 24 v)"
  "(PutUint64 v @ bs) ! 5 = ucast (drop_bit 16 v)"
  "(PutUint64 v @ bs) ! 6 = ucast (drop_bit 8 v)"
  "(PutUint64 v @ bs) ! 7 = ucast v"
  by (simp_all add: PutUint64_def)

lemma length_PutUint64 [simp]: "length (PutUint64 v) = 8"
  by (simp add: PutUint64_def)

lemma byte_window:
  fixes n :: nat
  shows "(n - 8 < 8) = (n < 16)" "(n - 16 < 8) = (n < 24)" "(n - 24 < 8) = (n < 32)"
    "(n - 32 < 8) = (n < 40)" "(n - 40 < 8) = (n < 48)" "(n - 48 < 8) = (n < 56)"
    "(n - 56 < 8) = (n < 64)"
  by arith+

lemma Uint64_PutUint64: "Uint64 (PutUint64 v @ bs) = v"
proof (rule bit_word_eqI)
  fix n assume n: "n < LENGTH(64)"
  consider "n < 8" | "8 \<le> n \<and> n < 16" | "16 \<le> n \<and> n < 24" | "24 \<le> n \<and> n < 32"
    | "32 \<le> n \<and> n < 40" | "40 \<le> n \<and> n < 48" | "48 \<le> n \<and> n < 56" | "56 \<le> n \<and> n < 64"
    using n by fastforce
  moreover have "n - k < 64" for k using n by simp
  ultimately show "bit (Uint64 (PutUint64 v @ bs)) n = bit v n"
    by cases
      (simp_all add: Uint64_def PutUint64_nth bit_or_iff bit_push_bit_iff bit_ucast_iff
        bit_drop_bit_eq byte_window)
qed

lemma Uint64_header: "Uint64 (PutUint64 v) = v"
  using Uint64_PutUint64 [of v "[]"] by simp

lemma sint_int64:
  assumes "- (2 ^ 63) \<le> x" "x < 2 ^ 63"
  shows "sint (word_of_int x :: 64 word) = x"
  using assms by (simp add: sint_sbintrunc' signed_take_bit_int_eq_self)

lemma entry_Get_Set:
  assumes "- (2 ^ 63) \<le> Unix (now + ttl)" "Unix (now + ttl) < 2 ^ 63"
    and "Unix now' \<le> Unix (now + ttl)"
  shows "entry_Get now' (fst (entry_Set now bs ttl)) = Inr (bs, Unix (now + ttl))"
  using assms by (simp add: entry_Get_def entry_Set_def Let_def Uint64_header sint_int64)

lemma Unix_mono: "t \<le> u \<Longrightarrow> Unix t \<le> Unix u"
  by (simp add: Unix_def zdiv_mono1)

text \<open>
  C5. The entry framing round-trips: when the absolute expiration \<open>now + ttl\<close> of
  \<open>entry.Set(b, ttl)\<close> is not before the instant \<open>now'\<close> of the following \<open>entry.Get()\<close>
  (and its second count is an int64, as every \<open>Time.Unix()\<close> is), \<open>Get\<close> returns exactly
  \<open>b\<close> together with the encoded expiration, which is the value \<open>Set\<close> returned. A
  buffer shorter than 8 bytes is \<open>ErrNotFound\<close>, and so is a buffer whose 8-byte
  big-endian header, read as Unix seconds, is before the current time.
\<close>

theorem entry_roundtrip:
  "(- (2 ^ 63) \<le> Unix (now + ttl) \<and> Unix (now + ttl) < 2 ^ 63 \<and> now' \<le> now + ttl \<longrightarrow>
      entry_Get now' (fst (entry_Set now b ttl)) = Inr (b, snd (entry_Set now b ttl)) \<and>
      snd (entry_Set now b ttl) = Unix (now + ttl) \<and>
      take 8 (fst (entry_Set now b ttl)) = PutUint64 (word_of_int (Unix (now + ttl))) \<and>
      drop 8 (fst (entry_Set now b ttl)) = b) \<and>
   (length e < 8 \<longrightarrow> entry_Get now' e = Inl ErrNotFound) \<and>
   (8 \<le> length e \<and> sint (Uint64 (take 8 e)) < Unix now' \<longrightarrow> entry_Get now' e = Inl ErrNotFound)"
proof (intro conjI impI)
  assume h: "- (2 ^ 63) \<le> Unix (now + ttl) \<and> Unix (now + ttl) < 2 ^ 63 \<and> now' \<le> now + ttl"
  then have "Unix now' \<le> Unix (now + ttl)" by (simp add: Unix_mono)
  with h show "entry_Get now' (fst (entry_Set now b ttl)) = Inr (b, snd (entry_Set now b ttl))"
    using entry_Get_Set [of now ttl now' b] by (simp add: entry_Set_def Let_def)
qed (simp_all add: entry_Get_def entry_Set_def Let_def)

theorem entry_roundtrip_witness:
  "entry_Get 1000000000 (fst (entry_Set 1000000000 [1, 2, 3] 5000000000)) = Inr ([1, 2, 3], 6) \<and>
   entry_Set 1000000000 [1, 2, 3] 5000000000 = ([0, 0, 0, 0, 0, 0, 0, 6, 1, 2, 3], 6) \<and>
   entry_Get 1000000000 [0, 0, 0] = Inl ErrNotFound \<and>
   entry_Get 7000000000 [0, 0, 0, 0, 0, 0, 0, 6, 1, 2, 3] = Inl ErrNotFound"
  using entry_roundtrip [of 1000000000 5000000000 1000000000 "[1, 2, 3]" "[0, 0, 0]"]
    entry_roundtrip [of 1000000000 5000000000 7000000000 "[1, 2, 3]"
      "[0, 0, 0, 0, 0, 0, 0, 6, 1, 2, 3]"]
  by (simp add: entry_Set_def Unix_def PutUint64_def Uint64_def)

section \<open>The two scans of the group cache\<close>

lemma setBytesCaches_loop_Cons:
  "setBytesCaches_loop now key bs t mode (v # vs) fe =
     (fst (setBytesCaches_loop now key bs t mode vs
             (if hard (fst (tierWrite now key bs t mode v)) then fst (tierWrite now key bs t mode v) else fe)),
      snd (tierWrite now key bs t mode v) #
      snd (setBytesCaches_loop now key bs t mode vs
             (if hard (fst (tierWrite now key bs t mode v)) then fst (tierWrite now key bs t mode v) else fe)))"
  by (simp add: hard_def Let_def case_prod_beta)

lemma setBytesCaches_loop_tiers:
  "snd (setBytesCaches_loop now key bs t mode vs fe) = map (\<lambda>v. snd (tierWrite now key bs t mode v)) vs"
  by (induction vs arbitrary: fe) (simp_all add: setBytesCaches_loop_Cons del: setBytesCaches_loop.simps(2))

lemma lastHard_Cons:
  "lastHard (e # es) = (if filter hard es = [] then (if hard e then e else None) else lastHard es)"
  by (simp add: lastHard_def)

lemma setBytesCaches_loop_error:
  "fst (setBytesCaches_loop now key bs t mode vs fe) =
     (if filter hard (map (\<lambda>v. fst (tierWrite now key bs t mode v)) vs) = [] then fe
      else lastHard (map (\<lambda>v. fst (tierWrite now key bs t mode v)) vs))"
proof (induction vs arbitrary: fe)
  case Nil
  show ?case by simp
next
  case (Cons v vs)
  show ?case
    by (simp add: setBytesCaches_loop_Cons Cons.IH lastHard_Cons del: setBytesCaches_loop.simps(2))
qed

lemma setBytesCaches_eq:
  "setBytesCaches now key caches bs expired mode =
     (lastHard (map (\<lambda>v. fst (tierWrite now key bs (Sub (time_Unix expired) now) mode v)) caches),
      map (\<lambda>v. snd (tierWrite now key bs (Sub (time_Unix expired) now) mode v)) caches)"
  by (simp add: setBytesCaches_def prod_eq_iff setBytesCaches_loop_tiers setBytesCaches_loop_error
      lastHard_def)


lemma GetBytesValue_loop_eq:
  "GetBytesValue_loop now key vs (b0, e0) acc =
     (case dropWhile (miss now key) vs of
        [] \<Rightarrow> (if vs = [] then (b0, e0, acc)
               else (fst (Cache_GetBytesValue now (last vs) key), Some ErrNotFound, acc @ vs))
      | v # rest \<Rightarrow> (fst (Cache_GetBytesValue now v key), snd (Cache_GetBytesValue now v key),
                     acc @ takeWhile (miss now key) vs))"
proof (induction vs arbitrary: b0 e0 acc)
  case Nil
  show ?case by simp
next
  case (Cons v vs)
  show ?case
  proof (cases "miss now key v")
    case True
    then have step: "GetBytesValue_loop now key (v # vs) (b0, e0) acc =
        GetBytesValue_loop now key vs (fst (Cache_GetBytesValue now v key), Some ErrNotFound) (acc @ [v])"
      by (simp add: miss_def case_prod_beta)
    show ?thesis
    proof (cases "dropWhile (miss now key) vs")
      case Nil
      have "GetBytesValue_loop now key (v # vs) (b0, e0) acc =
          (if vs = [] then (fst (Cache_GetBytesValue now v key), Some ErrNotFound, acc @ [v])
           else (fst (Cache_GetBytesValue now (last vs) key), Some ErrNotFound, (acc @ [v]) @ vs))"
        unfolding step by (simp only: Cons.IH Nil list.case)
      moreover have "dropWhile (miss now key) (v # vs) = []"
        using True Nil by simp
      ultimately show ?thesis
        by (simp only: list.case) simp
    next
      case (Cons w rest)
      have "GetBytesValue_loop now key (v # vs) (b0, e0) acc =
          (fst (Cache_GetBytesValue now w key), snd (Cache_GetBytesValue now w key),
           (acc @ [v]) @ takeWhile (miss now key) vs)"
        unfolding step by (simp only: Cons.IH Cons list.case)
      moreover have "dropWhile (miss now key) (v # vs) = w # rest"
        using True Cons by simp
      ultimately show ?thesis
        using True by (simp only: list.case) simp
    qed
  next
    case False
    then show ?thesis
      by (simp add: miss_def case_prod_beta)
  qed
qed

lemma entry_Get_error: "entry_Get now e = Inl x \<Longrightarrow> x = ErrNotFound"
  by (simp add: entry_Get_def Let_def split: if_splits)

lemma GetBytesValue_eq:
  "GetBytesValue now c key =
     (case dropWhile (miss now key) (SubCaches c) of
        [] \<Rightarrow> (([], Some ErrNotFound), c)
      | v # rest \<Rightarrow>
          (case Cache_GetBytesValue now v key of
             (bs, Some e) \<Rightarrow> (([], Some e), c)
           | (bs, None) \<Rightarrow>
               (case entry_Get now bs of
                  Inl e \<Rightarrow> (([], Some ErrNotFound), c)
                | Inr (buf, expired) \<Rightarrow>
                    ((buf, None),
                     c\<lparr>SubCaches :=
                         map (\<lambda>m. snd (tierWrite now key bs (Sub (time_Unix expired) now) modeSet m))
                           (takeWhile (miss now key) (SubCaches c)) @ v # rest\<rparr>))))"
proof (cases "dropWhile (miss now key) (SubCaches c)")
  case Nil
  have "GetBytesValue_loop now key (SubCaches c) ([], None) [] =
      (if SubCaches c = [] then ([], None, [])
       else (fst (Cache_GetBytesValue now (last (SubCaches c)) key), Some ErrNotFound, SubCaches c))"
    by (simp only: GetBytesValue_loop_eq Nil list.case append_Nil)
  then show ?thesis
    unfolding Nil by (simp add: GetBytesValue_def entry_Get_def)
next
  case (Cons v rest)
  have d: "drop (length (takeWhile (miss now key) (SubCaches c))) (SubCaches c) = v # rest"
    using Cons by (simp add: dropWhile_eq_drop)
  obtain bs err where g: "Cache_GetBytesValue now v key = (bs, err)"
    by (cases "Cache_GetBytesValue now v key")
  have l: "GetBytesValue_loop now key (SubCaches c) ([], None) [] =
      (bs, err, takeWhile (miss now key) (SubCaches c))"
    by (simp only: GetBytesValue_loop_eq Cons list.case append_Nil g fst_conv snd_conv)
  show ?thesis
  proof (cases err)
    case (Some e)
    then show ?thesis
      unfolding Cons by (simp add: GetBytesValue_def l g)
  next
    case None
    show ?thesis
    proof (cases "entry_Get now bs")
      case (Inl x)
      with entry_Get_error [OF Inl] None show ?thesis
        unfolding Cons by (simp add: GetBytesValue_def l g)
    next
      case (Inr r)
      with d None show ?thesis
        unfolding Cons
        by (simp add: GetBytesValue_def l g setBytesCaches_eq split: prod.split)
    qed
  qed
qed

section \<open>Unfolding rules for the tiers and the group\<close>

lemmas tier_defs =
  Cache_GetCacheKey_def defaultTTL_def deadline_def live_def
  Cache_SetBytesValue_def Cache_UpdateBytesValue_def Cache_GetBytesValue_def
  driver_SetBytesValue_def driver_UpdateBytesValue_def driver_GetBytesValue_def

lemmas group_defs =
  SetBytesValue_def UpdateBytesValue_def GetBytesValue_def setBytesCaches_def
  tierWrite_def tierTTL_def entry_Set_def entry_Get_def Unix_def time_Unix_def
  unixToInternal_def Sub_def
  PutUint64_def Uint64_def modeSet_def modeUpdate_def miss_def

section \<open>The read cascade of the group cache\<close>

lemma tierWrite_resolves:
  assumes "key \<noteq> []" "fault m = None" "refuse m (KeyPrefix m @ key) bs = None"
    and "defaultTTL m (tierTTL t (TTL m)) \<noteq> 0"
  shows "Cache_GetBytesValue now (snd (tierWrite now key bs t modeSet m)) key = (bs, None)"
  using assms
  by (simp add: tierWrite_def Cache_SetBytesValue_def Cache_GetCacheKey_def
      driver_SetBytesValue_def Cache_GetBytesValue_def driver_GetBytesValue_def live_def
      deadline_def Let_def)

lemma single_tier_resolves:
  assumes "Cache_GetBytesValue now m key = (bs, None)" "entry_Get now bs = Inr (buf, expired)"
  shows "fst (GetBytesValue now \<lparr>SubCaches = [m]\<rparr> key) = (buf, None)"
  using assms by (simp add: GetBytesValue_eq miss_def)

text \<open>
  The instant of \<open>time.Unix(sec, 0)\<close> is \<open>sec\<close> seconds after the epoch as long as the
  count from the year 1 is an int64. Beyond that it wraps: for the largest header an entry
  can carry, the instant lies far in the past, the remaining lifetime saturates at the
  smallest duration, and a tier that never expires is back-filled with ttl \<open>-1\<close>.
\<close>

lemma time_Unix_in_range:
  assumes "- (2 ^ 63) \<le> sec + unixToInternal" "sec + unixToInternal < 2 ^ 63"
  shows "time_Unix sec = sec * 1000000000"
  using sint_int64 [OF assms] by (simp add: time_Unix_def)

lemma time_Unix_wraps:
  "time_Unix 9223372036854775807 = - 9223372036854775809000000000 \<and>
   Sub (time_Unix 9223372036854775807) 10000000000 = - (2 ^ 63) \<and>
   tierTTL (Sub (time_Unix 9223372036854775807) 10000000000) (- 1) = - 1 \<and>
   tierTTL (Sub (time_Unix 9223372036854775807) 10000000000) 3600000000000 = 3600000000000"
  by (simp add: time_Unix_def unixToInternal_def Sub_def tierTTL_def)

text \<open>
  C2 (as amended). \<open>GetBytesValue\<close> of the group asks the tiers in list order from index
  0. A tier that answers \<open>ErrNotFound\<close> is passed over and remembered; the first tier that
  answers anything else ends the scan. When every tier answers \<open>ErrNotFound\<close> (or there
  is no tier) the result is \<open>ErrNotFound\<close>. When the ending tier answers another error,
  that error is the result. When it answers bytes, they are decoded: a malformed or expired
  entry gives \<open>ErrNotFound\<close> at once, without a look at the later tiers and without a
  back-fill; a valid entry gives its payload, and every passed-over tier is written by
  its \<open>SetBytesValue\<close> with the raw entry and its own capped ttl, the later tiers being
  left as they were. A tier so written that accepts the write (non-empty key, no fault, no
  refusal, a ttl that is not zero after the default is applied) answers the raw entry
  afterwards, and a group made of that tier alone resolves the same payload.
\<close>

theorem GetBytesValue_state_machine:
  "GetBytesValue now c key =
     (case dropWhile (miss now key) (SubCaches c) of
        [] \<Rightarrow> (([], Some ErrNotFound), c)
      | v # rest \<Rightarrow>
          (case Cache_GetBytesValue now v key of
             (bs, Some e) \<Rightarrow> (([], Some e), c)
           | (bs, None) \<Rightarrow>
               (case entry_Get now bs of
                  Inl e \<Rightarrow> (([], Some ErrNotFound), c)
                | Inr (buf, expired) \<Rightarrow>
                    ((buf, None),
                     c\<lparr>SubCaches :=
                         map (\<lambda>m. snd (Cache_SetBytesValue now m key bs
                                          (tierTTL (Sub (time_Unix expired) now) (TTL m))))
                           (takeWhile (miss now key) (SubCaches c)) @ v # rest\<rparr>)))) \<and>
   (entry_Get now bs' = Inr (buf', expired') \<and> key \<noteq> [] \<and> fault m = None \<and>
    refuse m (KeyPrefix m @ key) bs' = None \<and>
    defaultTTL m (tierTTL (Sub (time_Unix expired') now) (TTL m)) \<noteq> 0 \<longrightarrow>
      Cache_GetBytesValue now
        (snd (Cache_SetBytesValue now m key bs' (tierTTL (Sub (time_Unix expired') now) (TTL m))))
        key = (bs', None) \<and>
      fst (GetBytesValue now
        \<lparr>SubCaches = [snd (Cache_SetBytesValue now m key bs'
                             (tierTTL (Sub (time_Unix expired') now) (TTL m)))]\<rparr> key)
        = (buf', None))"
proof -
  have w: "tierWrite now key b t modeSet v = Cache_SetBytesValue now v key b (tierTTL t (TTL v))"
    for b t v
    by (simp add: tierWrite_def)
  let ?m' = "snd (Cache_SetBytesValue now m key bs' (tierTTL (Sub (time_Unix expired') now) (TTL m)))"
  have scan: "GetBytesValue now c key =
     (case dropWhile (miss now key) (SubCaches c) of
        [] \<Rightarrow> (([], Some ErrNotFound), c)
      | v # rest \<Rightarrow>
          (case Cache_GetBytesValue now v key of
             (bs, Some e) \<Rightarrow> (([], Some e), c)
           | (bs, None) \<Rightarrow>
               (case entry_Get now bs of
                  Inl e \<Rightarrow> (([], Some ErrNotFound), c)
                | Inr (buf, expired) \<Rightarrow>
                    ((buf, None),
                     c\<lparr>SubCaches :=
                         map (\<lambda>m. snd (Cache_SetBytesValue now m key bs
                                          (tierTTL (Sub (time_Unix expired) now) (TTL m))))
                           (takeWhile (miss now key) (SubCaches c)) @ v # rest\<rparr>))))"
    using GetBytesValue_eq [of now c key] unfolding w .
  have fill: "Cache_GetBytesValue now ?m' key = (bs', None) \<and>
      fst (GetBytesValue now \<lparr>SubCaches = [?m']\<rparr> key) = (buf', None)"
    if h: "entry_Get now bs' = Inr (buf', expired') \<and> key \<noteq> [] \<and> fault m = None \<and>
      refuse m (KeyPrefix m @ key) bs' = None \<and>
      defaultTTL m (tierTTL (Sub (time_Unix expired') now) (TTL m)) \<noteq> 0"
  proof -
    have g: "Cache_GetBytesValue now ?m' key = (bs', None)"
      using h tierWrite_resolves [of key m bs' "Sub (time_Unix expired') now" now]
      unfolding w by simp
    moreover have "fst (GetBytesValue now \<lparr>SubCaches = [?m']\<rparr> key) = (buf', None)"
      using h single_tier_resolves [OF g, of buf' expired'] by simp
    ultimately show ?thesis by simp
  qed
  from scan fill show ?thesis by blast
qed

text \<open>
  The theorem at a group of an empty tier followed by a tier that holds the entry: the
  read returns the payload, the empty tier is back-filled with the raw entry for the
  ninety seconds the entry has left, and alone it resolves the same payload. And at a
  group of an empty tier that never expires followed by a tier whose entry carries the
  largest header: the remaining lifetime is negative there, and the empty tier is
  back-filled without a deadline.
\<close>

theorem GetBytesValue_state_machine_witness:
  "entry_Get 10000000000 (fst (entry_Set 0 [7] 100000000000)) = Inr ([7], 100) \<and>
   fault (newTestCache ''p'' 3600) = None \<and>
   refuse (newTestCache ''p'' 3600) (KeyPrefix (newTestCache ''p'' 3600) @ ''k'')
     (fst (entry_Set 0 [7] 100000000000)) = None \<and>
   defaultTTL (newTestCache ''p'' 3600)
     (tierTTL (Sub (time_Unix 100) 10000000000) (TTL (newTestCache ''p'' 3600))) \<noteq> 0 \<and>
   fst (GetBytesValue 10000000000 \<lparr>SubCaches = [newTestCache ''p'' 3600, freshTier]\<rparr> ''k'')
     = ([7], None) \<and>
   fst (GetBytesValue 10000000000
     \<lparr>SubCaches = [snd (Cache_SetBytesValue 10000000000 (newTestCache ''p'' 3600) ''k''
        (fst (entry_Set 0 [7] 100000000000))
        (tierTTL (Sub (time_Unix 100) 10000000000) (TTL (newTestCache ''p'' 3600))))]\<rparr> ''k'')
     = ([7], None) \<and>
   map (\<lambda>v. slots v ''pk'')
     (SubCaches (snd (GetBytesValue 10000000000
        \<lparr>SubCaches = [newTestCache ''p'' 3600, freshTier]\<rparr> ''k'')))
     = [Some ([0, 0, 0, 0, 0, 0, 0, 100, 7], Some 100000000000),
        Some ([0, 0, 0, 0, 0, 0, 0, 100, 7], None)] \<and>
   (let g = GetBytesValue 10000000000
              \<lparr>SubCaches = [newTestCache ''p'' (- 1),
                 snd (Cache_SetBytesValue 0 (newTestCache ''p'' (- 1)) ''k''
                        (PutUint64 9223372036854775807 @ [7]) (- 1))]\<rparr> ''k''
    in (fst g, map (\<lambda>v. slots v ''pk'') (SubCaches (snd g))))
     = (([7], None),
        [Some ([127, 255, 255, 255, 255, 255, 255, 255, 7], None),
         Some ([127, 255, 255, 255, 255, 255, 255, 255, 7], None)])"
  using GetBytesValue_state_machine [of 10000000000
      "\<lparr>SubCaches = [newTestCache ''p'' 3600, freshTier]\<rparr>" "''k''"
      "fst (entry_Set 0 [7] 100000000000)" "[7]" 100 "newTestCache ''p'' 3600"]
    GetBytesValue_state_machine [of 10000000000
      "\<lparr>SubCaches = [newTestCache ''p'' (- 1),
         snd (Cache_SetBytesValue 0 (newTestCache ''p'' (- 1)) ''k''
                (PutUint64 9223372036854775807 @ [7]) (- 1))]\<rparr>" "''k''"
      "PutUint64 9223372036854775807 @ [7]" "[7]" 9223372036854775807 "newTestCache ''p'' (- 1)"]
  by (simp add: newTestCache_def freshTier_def group_defs tier_defs)

text \<open>
  The claim as stated fails: the first tier holds an entry whose header has expired (its
  backend still answers the bytes), the second tier holds a valid entry for the same key,
  and the read does not advance to the second tier but answers \<open>ErrNotFound\<close>.
\<close>

theorem GetBytesValue_counterexample:
  "Cache_GetBytesValue 10000000000 staleTier ''k'' = ([0, 0, 0, 0, 0, 0, 0, 1, 7], None) \<and>
   entry_Get 10000000000 [0, 0, 0, 0, 0, 0, 0, 1, 7] = Inl ErrNotFound \<and>
   fst (GetBytesValue 10000000000 \<lparr>SubCaches = [freshTier]\<rparr> ''k'') = ([7], None) \<and>
   fst (GetBytesValue 10000000000 \<lparr>SubCaches = [staleTier, freshTier]\<rparr> ''k'')
     = ([], Some ErrNotFound)"
  by (simp add: newTestCache_def staleTier_def freshTier_def group_defs tier_defs)

section \<open>The write cascade of the group cache\<close>

lemma SetBytesValue_eq:
  assumes "SubCaches c \<noteq> []"
  shows "SetBytesValue now c key bs ttl =
     (if hard (fst (Cache_SetBytesValue now (last (SubCaches c)) key (fst (entry_Set now bs ttl)) ttl))
      then Some (fst (Cache_SetBytesValue now (last (SubCaches c)) key (fst (entry_Set now bs ttl)) ttl),
                 c\<lparr>SubCaches := butlast (SubCaches c) @
                    [snd (Cache_SetBytesValue now (last (SubCaches c)) key
                            (fst (entry_Set now bs ttl)) ttl)]\<rparr>)
      else Some (lastHard (map (\<lambda>v. fst (tierWrite now key (fst (entry_Set now bs ttl))
                                  (Sub (time_Unix (Unix (now + ttl))) now) modeSet v))
                            (butlast (SubCaches c))),
                 c\<lparr>SubCaches :=
                    map (\<lambda>v. snd (tierWrite now key (fst (entry_Set now bs ttl))
                                  (Sub (time_Unix (Unix (now + ttl))) now) modeSet v))
                      (butlast (SubCaches c)) @
                    [snd (Cache_SetBytesValue now (last (SubCaches c)) key
                            (fst (entry_Set now bs ttl)) ttl)]\<rparr>))"
  using assms
  by (simp add: SetBytesValue_def setBytesCaches_eq hard_def entry_Set_def Let_def case_prod_beta)

lemma UpdateBytesValue_eq:
  assumes "SubCaches c \<noteq> []"
  shows "UpdateBytesValue now c key bs ttl =
     (if hard (fst (Cache_UpdateBytesValue now (last (SubCaches c)) key (fst (entry_Set now bs ttl)) ttl))
      then Some (fst (Cache_UpdateBytesValue now (last (SubCaches c)) key (fst (entry_Set now bs ttl)) ttl),
                 c\<lparr>SubCaches := butlast (SubCaches c) @
                    [snd (Cache_UpdateBytesValue now (last (SubCaches c)) key
                            (fst (entry_Set now bs ttl)) ttl)]\<rparr>)
      else Some (lastHard (map (\<lambda>v. fst (tierWrite now key (fst (entry_Set now bs ttl))
                                  (Sub (time_Unix (Unix (now + ttl))) now) modeUpdate v))
                            (butlast (SubCaches c))),
                 c\<lparr>SubCaches :=
                    map (\<lambda>v. snd (tierWrite now key (fst (entry_Set now bs ttl))
                                  (Sub (time_Unix (Unix (now + ttl))) now) modeUpdate v))
                      (butlast (SubCaches c)) @
                    [snd (Cache_UpdateBytesValue now (last (SubCaches c)) key
                            (fst (entry_Set now bs ttl)) ttl)]\<rparr>))"
  using assms
  by (simp add: UpdateBytesValue_def setBytesCaches_eq hard_def entry_Set_def Let_def case_prod_beta)

lemma lastHard_snoc: "lastHard (errs @ [e]) = (if hard e then e else lastHard errs)"
  by (simp add: lastHard_def)

lemma hard_iff:
  "hard err = (err \<noteq> None \<and> err \<noteq> Some ErrEntryTooLarge \<and> err \<noteq> Some ErrNotCacheable)"
  by (auto simp add: hard_def)

lemma tierWrite_stores:
  assumes "key \<noteq> []" "fault v = None" "refuse v (KeyPrefix v @ key) e = None"
  shows "slots (snd (tierWrite now key e t modeSet v)) (KeyPrefix v @ key)
           = Some (e, deadline now (defaultTTL v (tierTTL t (TTL v))))"
  using assms
  by (simp add: tierWrite_def Cache_SetBytesValue_def Cache_GetCacheKey_def
      driver_SetBytesValue_def Let_def)

text \<open>
  C4. In a write of the group (\<open>SetBytesValue\<close>, \<open>UpdateBytesValue\<close>), the last tier is
  written first, with the caller's ttl. When its answer is a hard error (set, and neither
  \<open>ErrEntryTooLarge\<close> nor \<open>ErrNotCacheable\<close>), the write stops and that error is
  returned, no other tier being touched. Otherwise, also after \<open>ErrEntryTooLarge\<close> or
  \<open>ErrNotCacheable\<close>, the entry is written to every remaining tier, by the tier's
  \<open>SetBytesValue\<close> in a set and by its \<open>UpdateBytesValue\<close> in an update, and the
  result is the last hard error among the answers of the remaining tiers (none when there
  is no hard one): advisory errors are swallowed.
\<close>

theorem group_write_error_policy:
  "(SubCaches c \<noteq> [] \<longrightarrow>
      SetBytesValue now c key bs ttl =
       (if hard (fst (Cache_SetBytesValue now (last (SubCaches c)) key (fst (entry_Set now bs ttl)) ttl))
        then Some (fst (Cache_SetBytesValue now (last (SubCaches c)) key (fst (entry_Set now bs ttl)) ttl),
                   c\<lparr>SubCaches := butlast (SubCaches c) @
                      [snd (Cache_SetBytesValue now (last (SubCaches c)) key
                              (fst (entry_Set now bs ttl)) ttl)]\<rparr>)
        else Some (lastHard (map (\<lambda>v. fst (Cache_SetBytesValue now v key (fst (entry_Set now bs ttl))
                                    (tierTTL (Sub (time_Unix (Unix (now + ttl))) now) (TTL v))))
                              (butlast (SubCaches c))),
                   c\<lparr>SubCaches :=
                      map (\<lambda>v. snd (Cache_SetBytesValue now v key (fst (entry_Set now bs ttl))
                                    (tierTTL (Sub (time_Unix (Unix (now + ttl))) now) (TTL v))))
                        (butlast (SubCaches c)) @
                      [snd (Cache_SetBytesValue now (last (SubCaches c)) key
                              (fst (entry_Set now bs ttl)) ttl)]\<rparr>))) \<and>
   (SubCaches c \<noteq> [] \<longrightarrow>
      UpdateBytesValue now c key bs ttl =
       (if hard (fst (Cache_UpdateBytesValue now (last (SubCaches c)) key (fst (entry_Set now bs ttl)) ttl))
        then Some (fst (Cache_UpdateBytesValue now (last (SubCaches c)) key (fst (entry_Set now bs ttl)) ttl),
                   c\<lparr>SubCaches := butlast (SubCaches c) @
                      [snd (Cache_UpdateBytesValue now (last (SubCaches c)) key
                              (fst (entry_Set now bs ttl)) ttl)]\<rparr>)
        else Some (lastHard (map (\<lambda>v. fst (Cache_UpdateBytesValue now v key (fst (entry_Set now bs ttl))
                                    (tierTTL (Sub (time_Unix (Unix (now + ttl))) now) (TTL v))))
                              (butlast (SubCaches c))),
                   c\<lparr>SubCaches :=
                      map (\<lambda>v. snd (Cache_UpdateBytesValue now v key (fst (entry_Set now bs ttl))
                                    (tierTTL (Sub (time_Unix (Unix (now + ttl))) now) (TTL v))))
                        (butlast (SubCaches c)) @
                      [snd (Cache_UpdateBytesValue now (last (SubCaches c)) key
                              (fst (entry_Set now bs ttl)) ttl)]\<rparr>))) \<and>
   hard err = (err \<noteq> None \<and> err \<noteq> Some ErrEntryTooLarge \<and> err \<noteq> Some ErrNotCacheable) \<and>
   lastHard [] = None \<and>
   lastHard (errs @ [e]) = (if hard e then e else lastHard errs)"
proof -
  have s: "tierWrite now key b t modeSet v = Cache_SetBytesValue now v key b (tierTTL t (TTL v))"
    for b t v
    by (simp add: tierWrite_def)
  have u: "tierWrite now key b t modeUpdate v = Cache_UpdateBytesValue now v key b (tierTTL t (TTL v))"
    for b t v
    by (simp add: tierWrite_def modeUpdate_def modeSet_def)
  show ?thesis
    using SetBytesValue_eq [of c now key bs ttl] UpdateBytesValue_eq [of c now key bs ttl]
      hard_iff [of err] lastHard_snoc [of errs e]
    by (simp add: lastHard_def s u)
qed

text \<open>
  The theorem at two writes. The set goes to a group of a failing tier, a sound tier and a
  last tier that is too small: the refusal of the last tier is swallowed, the sound tier
  stores the entry and the failure of the first tier is returned. The update goes to a
  group of two failing tiers that hold the key, an empty tier, a sound tier that holds the
  key and a last tier that is too small and holds the key: the refusal of the last tier is
  swallowed, the sound tier stores the entry, the empty tier stays empty, and of the two
  failures the later one is returned.
\<close>

theorem group_write_error_policy_witness:
  "SubCaches \<lparr>SubCaches = [brokenTestCache ''p'' 3600, newTestCache ''p'' 3600,
       NewEntiyTooLargeCache ''p'' 3600]\<rparr> \<noteq> [] \<and>
   map_option (\<lambda>(err, c'). (err, map (\<lambda>v. slots v ''pk'') (SubCaches c')))
     (SetBytesValue 10000000000
        \<lparr>SubCaches = [brokenTestCache ''p'' 3600, newTestCache ''p'' 3600,
           NewEntiyTooLargeCache ''p'' 3600]\<rparr> ''k'' [7] 5000000000)
   = Some (Some (ErrOther ''io''),
       [None, Some ([0, 0, 0, 0, 0, 0, 0, 15, 7], Some 15000000000), None]) \<and>
   map_option (\<lambda>(err, c'). (err, map (\<lambda>v. slots v ''pk'') (SubCaches c')))
     (UpdateBytesValue 10000000000
        \<lparr>SubCaches = [holdingKey ((brokenTestCache ''p'' 3600)
                          \<lparr>refuse := (\<lambda>k bs. Some (ErrOther ''disk''))\<rparr>),
           holdingKey (brokenTestCache ''p'' 3600), newTestCache ''p'' 3600,
           holdingKey (newTestCache ''p'' 3600),
           holdingKey (NewEntiyTooLargeCache ''p'' 3600)]\<rparr> ''k'' [7] 5000000000)
   = Some (Some (ErrOther ''io''),
       [Some ([1], None), Some ([1], None), None,
        Some ([0, 0, 0, 0, 0, 0, 0, 15, 7], Some 15000000000), Some ([1], None)]) \<and>
   fst (Cache_UpdateBytesValue 10000000000 (holdingKey (NewEntiyTooLargeCache ''p'' 3600)) ''k''
          (fst (entry_Set 10000000000 [7] 5000000000)) 5000000000) = Some ErrEntryTooLarge"
  using group_write_error_policy [of
      "\<lparr>SubCaches = [brokenTestCache ''p'' 3600, newTestCache ''p'' 3600,
           NewEntiyTooLargeCache ''p'' 3600]\<rparr>" 10000000000 "''k''" "[7]" 5000000000 None "[]" None]
    group_write_error_policy [of
      "\<lparr>SubCaches = [holdingKey ((brokenTestCache ''p'' 3600)
                          \<lparr>refuse := (\<lambda>k bs. Some (ErrOther ''disk''))\<rparr>),
           holdingKey (brokenTestCache ''p'' 3600), newTestCache ''p'' 3600,
           holdingKey (newTestCache ''p'' 3600),
           holdingKey (NewEntiyTooLargeCache ''p'' 3600)]\<rparr>" 10000000000 "''k''" "[7]" 5000000000
      None "[]" None]
  by (simp add: brokenTestCache_def newTestCache_def NewEntiyTooLargeCache_def holdingKey_def
      hard_def lastHard_def group_defs tier_defs)

text \<open>
  C3 (as amended). The ttl of a tier written by \<open>setBytesCaches\<close> is determined by the
  remaining lifetime \<open>t\<close> of the entry and the tier's own \<open>TTL\<close>: the tier's \<open>TTL\<close> when
  \<open>t\<close> is negative and the \<open>TTL\<close> is not, \<open>-1\<close> (never) when both are negative, \<open>t\<close>
  when only the \<open>TTL\<close> is negative, and the minimum of the two otherwise. In a write of the
  group that does not stop at the last tier, every tier but the last is written with that
  ttl, and the last tier is written with the caller's ttl as it was given. A tier that
  accepts the write stores the entry with the deadline of that ttl (its default when the
  ttl is zero).
\<close>

theorem tier_ttl_capping:
  "tierTTL t T = (if t < 0 then (if T < 0 then - 1 else T) else if T < 0 then t else min T t) \<and>
   tierWrite now key e t modeSet v = Cache_SetBytesValue now v key e (tierTTL t (TTL v)) \<and>
   tierWrite now key e t modeUpdate v = Cache_UpdateBytesValue now v key e (tierTTL t (TTL v)) \<and>
   (SubCaches c \<noteq> [] \<and>
    \<not> hard (fst (Cache_SetBytesValue now (last (SubCaches c)) key (fst (entry_Set now bs ttl)) ttl)) \<longrightarrow>
      map_option (\<lambda>r. SubCaches (snd r)) (SetBytesValue now c key bs ttl) =
        Some (map (\<lambda>v. snd (tierWrite now key (fst (entry_Set now bs ttl))
                          (Sub (time_Unix (Unix (now + ttl))) now) modeSet v))
                (butlast (SubCaches c)) @
              [snd (Cache_SetBytesValue now (last (SubCaches c)) key
                      (fst (entry_Set now bs ttl)) ttl)])) \<and>
   (SubCaches c \<noteq> [] \<and>
    \<not> hard (fst (Cache_UpdateBytesValue now (last (SubCaches c)) key (fst (entry_Set now bs ttl)) ttl)) \<longrightarrow>
      map_option (\<lambda>r. SubCaches (snd r)) (UpdateBytesValue now c key bs ttl) =
        Some (map (\<lambda>v. snd (tierWrite now key (fst (entry_Set now bs ttl))
                          (Sub (time_Unix (Unix (now + ttl))) now) modeUpdate v))
                (butlast (SubCaches c)) @
              [snd (Cache_UpdateBytesValue now (last (SubCaches c)) key
                      (fst (entry_Set now bs ttl)) ttl)])) \<and>
   (key \<noteq> [] \<and> fault v = None \<and> refuse v (KeyPrefix v @ key) e = None \<longrightarrow>
      slots (snd (tierWrite now key e t modeSet v)) (KeyPrefix v @ key)
        = Some (e, deadline now (defaultTTL v (tierTTL t (TTL v)))))"
proof (intro conjI impI)
  show "tierTTL t T = (if t < 0 then (if T < 0 then - 1 else T) else if T < 0 then t else min T t)"
    by (simp add: tierTTL_def min_def)
  show "tierWrite now key e t modeSet v = Cache_SetBytesValue now v key e (tierTTL t (TTL v))"
    by (simp add: tierWrite_def)
  show "tierWrite now key e t modeUpdate v = Cache_UpdateBytesValue now v key e (tierTTL t (TTL v))"
    by (simp add: tierWrite_def modeUpdate_def modeSet_def)
next
  assume "SubCaches c \<noteq> [] \<and>
    \<not> hard (fst (Cache_SetBytesValue now (last (SubCaches c)) key (fst (entry_Set now bs ttl)) ttl))"
  then show "map_option (\<lambda>r. SubCaches (snd r)) (SetBytesValue now c key bs ttl) =
        Some (map (\<lambda>v. snd (tierWrite now key (fst (entry_Set now bs ttl))
                          (Sub (time_Unix (Unix (now + ttl))) now) modeSet v))
                (butlast (SubCaches c)) @
              [snd (Cache_SetBytesValue now (last (SubCaches c)) key
                      (fst (entry_Set now bs ttl)) ttl)])"
    by (simp add: SetBytesValue_eq)
next
  assume "SubCaches c \<noteq> [] \<and>
    \<not> hard (fst (Cache_UpdateBytesValue now (last (SubCaches c)) key (fst (entry_Set now bs ttl)) ttl))"
  then show "map_option (\<lambda>r. SubCaches (snd r)) (UpdateBytesValue now c key bs ttl) =
        Some (map (\<lambda>v. snd (tierWrite now key (fst (entry_Set now bs ttl))
                          (Sub (time_Unix (Unix (now + ttl))) now) modeUpdate v))
                (butlast (SubCaches c)) @
              [snd (Cache_UpdateBytesValue now (last (SubCaches c)) key
                      (fst (entry_Set now bs ttl)) ttl)])"
    by (simp add: UpdateBytesValue_eq)
next
  assume "key \<noteq> [] \<and> fault v = None \<and> refuse v (KeyPrefix v @ key) e = None"
  then show "slots (snd (tierWrite now key e t modeSet v)) (KeyPrefix v @ key)
        = Some (e, deadline now (defaultTTL v (tierTTL t (TTL v))))"
    by (simp add: tierWrite_stores)
qed

text \<open>The theorem at a group of three tiers and an entry of two hours.\<close>

theorem tier_ttl_capping_witness:
  "SubCaches \<lparr>SubCaches = [newTestCache ''p'' 3600, newTestCache ''p'' (- 1),
       newTestCache ''p'' 3600]\<rparr> \<noteq> [] \<and>
   \<not> hard (fst (Cache_SetBytesValue 10000000000 (newTestCache ''p'' 3600) ''k''
       (fst (entry_Set 10000000000 [7] 7200000000000)) 7200000000000)) \<and>
   fault (newTestCache ''p'' 3600) = None \<and>
   map_option (\<lambda>r. map (\<lambda>v. slots v ''pk'') (SubCaches (snd r)))
     (SetBytesValue 10000000000
        \<lparr>SubCaches = [newTestCache ''p'' 3600, newTestCache ''p'' (- 1),
           newTestCache ''p'' 3600]\<rparr> ''k'' [7] 7200000000000)
   = Some [Some ([0, 0, 0, 0, 0, 0, 28, 42, 7], Some 3610000000000),
           Some ([0, 0, 0, 0, 0, 0, 28, 42, 7], Some 7210000000000),
           Some ([0, 0, 0, 0, 0, 0, 28, 42, 7], Some 7210000000000)]"
  using tier_ttl_capping [of 7200000000000 3600000000000 10000000000 "''k''"
      "fst (entry_Set 10000000000 [7] 7200000000000)" "newTestCache ''p'' 3600"
      "\<lparr>SubCaches = [newTestCache ''p'' 3600, newTestCache ''p'' (- 1),
           newTestCache ''p'' 3600]\<rparr>" "[7]" 7200000000000]
  by (simp add: newTestCache_def group_defs tier_defs hard_def)

text \<open>
  The claim as stated fails at the tier that is written first: the only tier of the group
  has a ttl of one hour, the entry has two hours to live, and the tier stores it for two
  hours, not for the minimum of the two.
\<close>

theorem tier_ttl_counterexample:
  "map_option (\<lambda>r. map (\<lambda>v. slots v ''pk'') (SubCaches (snd r)))
     (SetBytesValue 10000000000 \<lparr>SubCaches = [newTestCache ''p'' 3600]\<rparr> ''k'' [7] 7200000000000)
   = Some [Some ([0, 0, 0, 0, 0, 0, 28, 42, 7], Some (10000000000 + 7200000000000))] \<and>
   min (Sub (time_Unix (snd (entry_Set 10000000000 [7] 7200000000000))) 10000000000)
       (TTL (newTestCache ''p'' 3600)) = 3600000000000"
  by (simp add: newTestCache_def group_defs tier_defs)

section \<open>Negative ttl and expiry in the group cache\<close>

text \<open>
  For every negative ttl the header written by \<open>entry.Set\<close> is read as expired from one
  second later on; a single tier that accepts the write keeps the entry, and the read of
  the group answers \<open>ErrNotFound\<close> all the same.
\<close>

lemma entry_Get_after_negative_ttl:
  assumes "ttl < 0" "- (2 ^ 63) \<le> Unix (now + ttl)" "Unix (now + ttl) < 2 ^ 63"
    and "now + 1000000000 \<le> now'"
  shows "entry_Get now' (fst (entry_Set now bs ttl)) = Inl ErrNotFound"
proof -
  have "Unix (now + ttl) < Unix now'"
    using assms(1,4) unfolding Unix_def by linarith
  with assms(2,3) show ?thesis
    by (simp add: entry_Get_def entry_Set_def Let_def Uint64_header sint_int64)
qed

lemma negative_ttl_single_tier:
  assumes "ttl < 0" "- (2 ^ 63) \<le> Unix (now + ttl)" "Unix (now + ttl) < 2 ^ 63"
    and "now + 1000000000 \<le> now'"
    and "key \<noteq> []" "fault v = None" "refuse v (KeyPrefix v @ key) (fst (entry_Set now bs ttl)) = None"
  shows "\<exists>c'. SetBytesValue now \<lparr>SubCaches = [v]\<rparr> key bs ttl = Some (None, c') \<and>
           Cache_GetBytesValue now' (hd (SubCaches c')) key = (fst (entry_Set now bs ttl), None) \<and>
           fst (GetBytesValue now' c' key) = ([], Some ErrNotFound)"
proof -
  let ?e = "fst (entry_Set now bs ttl)"
  let ?v' = "snd (Cache_SetBytesValue now v key ?e ttl)"
  have w: "fst (Cache_SetBytesValue now v key ?e ttl) = None"
    using assms(5-7)
    by (simp add: Cache_SetBytesValue_def Cache_GetCacheKey_def driver_SetBytesValue_def)
  have s: "SetBytesValue now \<lparr>SubCaches = [v]\<rparr> key bs ttl = Some (None, \<lparr>SubCaches = [?v']\<rparr>)"
    using w by (simp add: SetBytesValue_eq hard_def lastHard_def)
  have g: "Cache_GetBytesValue now' ?v' key = (?e, None)"
    using assms(1,5-7)
    by (simp add: Cache_SetBytesValue_def Cache_GetCacheKey_def driver_SetBytesValue_def
        Cache_GetBytesValue_def driver_GetBytesValue_def defaultTTL_def deadline_def live_def)
  have "fst (GetBytesValue now' \<lparr>SubCaches = [?v']\<rparr> key) = ([], Some ErrNotFound)"
    using g entry_Get_after_negative_ttl [OF assms(1-4), of bs]
    by (simp add: GetBytesValue_eq miss_def)
  with s g show ?thesis by simp
qed

text \<open>
  C6. A write of the group with the negative ttl \<open>-1\<close> at second 10 on a single tier that
  never expires is accepted, and the backend keeps the entry without a deadline; its
  header, however, is second 9, so the read of the group answers \<open>ErrNotFound\<close> at the
  same instant and an hour later: the entry is treated as expired at once.
\<close>

theorem negative_ttl_expired_at_once:
  "map_option (\<lambda>r. (fst r, map (\<lambda>v. slots v ''pk'') (SubCaches (snd r)),
       fst (GetBytesValue 10000000000 (snd r) ''k''),
       fst (GetBytesValue 3610000000000 (snd r) ''k'')))
     (SetBytesValue 10000000000 \<lparr>SubCaches = [newTestCache ''p'' (- 1)]\<rparr> ''k'' [7] (- 1))
   = Some (None, [Some ([0, 0, 0, 0, 0, 0, 0, 9, 7], None)],
       ([], Some ErrNotFound), ([], Some ErrNotFound))"
  by (simp add: newTestCache_def group_defs tier_defs)

text \<open>
  Whenever every tier misses the key, \<open>Expire\<close> of the group returns \<open>ErrNotFound\<close>.
\<close>

lemma Expire_all_miss:
  assumes "\<forall>v\<in>set (SubCaches c). miss now key v"
  shows "Expire now c key ttl = Some (Some ErrNotFound, c)"
proof -
  have "dropWhile (miss now key) (SubCaches c) = []"
    using assms by simp
  then have "GetBytesValue now c key = (([], Some ErrNotFound), c)"
    by (simp only: GetBytesValue_eq list.case)
  then show ?thesis
    by (simp add: Expire_def)
qed

text \<open>
  C7. \<open>Expire\<close> of the group on a key that no tier holds returns \<open>ErrNotFound\<close>, the
  error of its read, and leaves the group as it was; \<open>Expire\<close> of the engine on the same
  absent key returns no error.
\<close>

theorem group_Expire_absent_key:
  "Expire 10000000000 \<lparr>SubCaches = [newTestCache ''p'' 3600]\<rparr> ''notexists'' 0
     = Some (Some ErrNotFound, \<lparr>SubCaches = [newTestCache ''p'' 3600]\<rparr>) \<and>
   Cache_Expire 10000000000 (newTestCache ''p'' 3600) ''notexists'' 0
     = (None, newTestCache ''p'' 3600)"
  by (simp add: newTestCache_def Expire_def Cache_Expire_def driver_Expire_def group_defs
      tier_defs)

section \<open>Final keys\<close>

text \<open>
  C8 (as amended). \<open>FinalKey\<close> of an engine with static prefix \<open>P\<close> is \<open>P\<close> followed by
  the key. The key a node with prefix \<open>NS\<close> hands on is \<open>NS\<close>, the package constant
  \<open>KeyPrefix\<close> and the key; \<open>FinalKey\<close> of the node over the engine is the engine's
  \<open>FinalKey\<close> of that key: \<open>P\<close>, \<open>NS\<close>, \<open>KeyPrefix\<close>, key, in this order.
\<close>

theorem FinalKey_concatenation:
  "Cache_FinalKey c key = KeyPrefix c @ key \<and>
   FinalKey kp (Engine c) key = KeyPrefix c @ key \<and>
   GetCacheKey kp (Node x ns) key = Inr (ns @ kp @ key) \<and>
   FinalKey kp (Node x ns) key = FinalKey kp x (ns @ kp @ key) \<and>
   FinalKey kp (Node (Engine c) ns) key = KeyPrefix c @ ns @ kp @ key"
  by (simp add: Cache_FinalKey_def)

text \<open>
  Whenever the static prefix of the engine is the package constant, as \<open>TestFinalKey\<close>
  has it, and is not empty, the final key under a node is longer than the namespace, the
  prefix and the key together.
\<close>

lemma FinalKey_Node_longer:
  assumes "KeyPrefix c = kp" "kp \<noteq> []"
  shows "FinalKey kp (Node (Engine c) ns) key \<noteq> ns @ kp @ key"
proof
  assume "FinalKey kp (Node (Engine c) ns) key = ns @ kp @ key"
  then have "length (kp @ ns @ kp @ key) = length (ns @ kp @ key)"
    using assms by (simp add: Cache_FinalKey_def)
  with assms show False by simp
qed

text \<open>
  The claim as stated fails: with the static prefix \<open>p\<close> (which is also the package
  constant) and the namespace \<open>n\<close>, the final key of \<open>key\<close> under the node is
  \<open>pnpkey\<close>, not \<open>npkey\<close>.
\<close>

theorem FinalKey_counterexample:
  "FinalKey ''p'' (Node (Engine (newTestCache ''p'' 3600)) ''n'') ''key'' = ''pnpkey'' \<and>
   ''n'' @ KeyPrefix (newTestCache ''p'' 3600) @ ''key'' = ''npkey'' \<and>
   FinalKey ''p'' (Node (Engine (newTestCache ''p'' 3600)) ''n'') ''key''
     \<noteq> ''n'' @ KeyPrefix (newTestCache ''p'' 3600) @ ''key''"
  by (simp add: Cache_FinalKey_def newTestCache_def)

section \<open>The empty key\<close>

text \<open>
  C9. Every keyed operation of the engine (\<open>Set\<close>, \<open>Update\<close>, \<open>Get\<close>,
  \<open>SetBytesValue\<close>, \<open>UpdateBytesValue\<close>, \<open>GetBytesValue\<close>, \<open>Del\<close>, \<open>SetCounter\<close>,
  \<open>GetCounter\<close>, \<open>IncrCounter\<close>, \<open>DelCounter\<close>, \<open>Expire\<close>, \<open>ExpireCounter\<close>,
  \<open>Load\<close>) called with the empty key returns \<open>ErrKeyUnavailable\<close> and leaves the engine
  as it was, whatever the codec, the backend and the loader would do: no backend is called
  and nothing is stored.
\<close>

theorem empty_key_unavailable:
  "Cache_Set m now c [] v ttl = (Some ErrKeyUnavailable, c) \<and>
   Cache_Update m now c [] v ttl = (Some ErrKeyUnavailable, c) \<and>
   Cache_Get m now c [] = Inl ErrKeyUnavailable \<and>
   Cache_SetBytesValue now c [] bs ttl = (Some ErrKeyUnavailable, c) \<and>
   Cache_UpdateBytesValue now c [] bs ttl = (Some ErrKeyUnavailable, c) \<and>
   snd (Cache_GetBytesValue now c []) = Some ErrKeyUnavailable \<and>
   Cache_Del c [] = (Some ErrKeyUnavailable, c) \<and>
   Cache_SetCounter now c [] n ttl = (Some ErrKeyUnavailable, c) \<and>
   snd (Cache_GetCounter now c []) = Some ErrKeyUnavailable \<and>
   snd (fst (Cache_IncrCounter now c [] n ttl)) = Some ErrKeyUnavailable \<and>
   snd (Cache_IncrCounter now c [] n ttl) = c \<and>
   Cache_DelCounter c [] = (Some ErrKeyUnavailable, c) \<and>
   Cache_Expire now c [] ttl = (Some ErrKeyUnavailable, c) \<and>
   Cache_ExpireCounter now c [] ttl = (Some ErrKeyUnavailable, c) \<and>
   Cache_Load m now c [] ttl loader = (Inl ErrKeyUnavailable, c)"
  by (simp add: Cache_Set_def Cache_Update_def Cache_Get_def Cache_Load_def Cache_Del_def
      Cache_Expire_def Cache_SetCounter_def Cache_GetCounter_def Cache_IncrCounter_def
      Cache_DelCounter_def Cache_ExpireCounter_def Cache_GetCacheKey_def
      Cache_SetBytesValue_def Cache_UpdateBytesValue_def Cache_GetBytesValue_def)

text \<open>
  The theorem at the calls of \<open>TestCacheEmptyKey\<close>, on the engine of the test and, for
  \<open>Set\<close> and \<open>Load\<close>, also with a codec that cannot serialise and over a backend whose
  writes fail.
\<close>

theorem empty_key_unavailable_witness:
  "Cache_Set failingMarshaler 0 (brokenTestCache ''p'' 3600) [] [] 0
     = (Some ErrKeyUnavailable, brokenTestCache ''p'' 3600) \<and>
   Cache_Set failingMarshaler 0 (newTestCache ''p'' 3600) [] [] 0
     = (Some ErrKeyUnavailable, newTestCache ''p'' 3600) \<and>
   Cache_Update failingMarshaler 0 (newTestCache ''p'' 3600) [] [] 0
     = (Some ErrKeyUnavailable, newTestCache ''p'' 3600) \<and>
   Cache_Get failingMarshaler 0 (newTestCache ''p'' 3600) [] = Inl ErrKeyUnavailable \<and>
   Cache_SetBytesValue 0 (newTestCache ''p'' 3600) [] [] 0
     = (Some ErrKeyUnavailable, newTestCache ''p'' 3600) \<and>
   Cache_UpdateBytesValue 0 (newTestCache ''p'' 3600) [] [] 0
     = (Some ErrKeyUnavailable, newTestCache ''p'' 3600) \<and>
   snd (Cache_GetBytesValue 0 (newTestCache ''p'' 3600) []) = Some ErrKeyUnavailable \<and>
   Cache_Del (newTestCache ''p'' 3600) [] = (Some ErrKeyUnavailable, newTestCache ''p'' 3600) \<and>
   Cache_SetCounter 0 (newTestCache ''p'' 3600) [] 0 0
     = (Some ErrKeyUnavailable, newTestCache ''p'' 3600) \<and>
   snd (Cache_GetCounter 0 (newTestCache ''p'' 3600) []) = Some ErrKeyUnavailable \<and>
   snd (fst (Cache_IncrCounter 0 (newTestCache ''p'' 3600) [] 0 0)) = Some ErrKeyUnavailable \<and>
   Cache_DelCounter (newTestCache ''p'' 3600) []
     = (Some ErrKeyUnavailable, newTestCache ''p'' 3600) \<and>
   Cache_Expire 0 (newTestCache ''p'' 3600) [] 1000
     = (Some ErrKeyUnavailable, newTestCache ''p'' 3600) \<and>
   Cache_ExpireCounter 0 (newTestCache ''p'' 3600) [] 1000
     = (Some ErrKeyUnavailable, newTestCache ''p'' 3600) \<and>
   Cache_Load failingMarshaler 0 (newTestCache ''p'' 3600) [] 0 (\<lambda>key. Inr (map (of_char) key))
     = (Inl ErrKeyUnavailable, newTestCache ''p'' 3600)"
  using empty_key_unavailable [of failingMarshaler 0 "brokenTestCache ''p'' 3600" "[]" 0 "[]" 0
      "\<lambda>key. Inr (map (of_char) key)"]
    empty_key_unavailable [of failingMarshaler 0 "newTestCache ''p'' 3600" "[]" 0 "[]" 0
      "\<lambda>key. Inr (map (of_char) key)"]
    empty_key_unavailable [of failingMarshaler 0 "newTestCache ''p'' 3600" "[]" 1000 "[]" 0
      "\<lambda>key. Inr (map (of_char) key)"]
  by simp

section \<open>The marshaler registry never replaces a registration\<close>

text \<open>
  C10. \<open>RegisterMarshaler\<close> panics when the factory is \<open>nil\<close> and when the name is
  already registered. When it returns, the factory was not \<open>nil\<close>, the name was free, the
  name now maps to the new factory and every other name maps to what it mapped to before:
  no registration is replaced. \<open>NewMarshaler\<close> of a name that is not registered returns
  an error, and of a registered name the result of its factory.
\<close>

theorem registry_never_replaces:
  "RegisterMarshaler reg name None = Inl (Panic ''cache: Register marshaler factory is nil'') \<and>
   (reg name \<noteq> None \<longrightarrow>
      RegisterMarshaler reg name (Some f)
        = Inl (Panic (''cache: Register marshaler twice for factory '' @ name))) \<and>
   (RegisterMarshaler reg name fo = Inr reg' \<longrightarrow>
      fo \<noteq> None \<and> reg name = None \<and> reg' name = fo \<and> (\<forall>n. n \<noteq> name \<longrightarrow> reg' n = reg n)) \<and>
   (reg name = None \<longrightarrow> NewMarshaler reg name = Inl (UnknownMarshaler name (name = ''msgpack''))) \<and>
   (reg name = Some g \<longrightarrow> NewMarshaler reg name = Inr (g ()))"
  by (auto simp add: RegisterMarshaler_def NewMarshaler_def split: option.splits if_splits)

text \<open>
  The theorem at the registry that holds \<open>json\<close> alone: a second \<open>json\<close> panics, \<open>msgpack\<close>
  can be added and leaves \<open>json\<close> in place, and \<open>gob\<close> is unknown.
\<close>

theorem registry_never_replaces_witness:
  "[''json'' \<mapsto> (\<lambda>u. ''JSONMarshaler'')] ''json'' \<noteq> None \<and>
   RegisterMarshaler [''json'' \<mapsto> (\<lambda>u. ''JSONMarshaler'')] ''json'' (Some (\<lambda>u. ''other''))
     = Inl (Panic ''cache: Register marshaler twice for factory json'') \<and>
   RegisterMarshaler [''json'' \<mapsto> (\<lambda>u. ''JSONMarshaler'')] ''msgpack'' (Some (\<lambda>u. ''Msgpack''))
     = Inr [''json'' \<mapsto> (\<lambda>u. ''JSONMarshaler''), ''msgpack'' \<mapsto> (\<lambda>u. ''Msgpack'')] \<and>
   [''json'' \<mapsto> (\<lambda>u. ''JSONMarshaler''), ''msgpack'' \<mapsto> (\<lambda>u. ''Msgpack'')] ''json''
     = Some (\<lambda>u. ''JSONMarshaler'') \<and>
   [''json'' \<mapsto> (\<lambda>u. ''JSONMarshaler'')] ''gob'' = None \<and>
   NewMarshaler [''json'' \<mapsto> (\<lambda>u. ''JSONMarshaler'')] ''gob'' = Inl (UnknownMarshaler ''gob'' False) \<and>
   NewMarshaler [''json'' \<mapsto> (\<lambda>u. ''JSONMarshaler'')] ''json'' = Inr ''JSONMarshaler''"
  using registry_never_replaces [of "[''json'' \<mapsto> (\<lambda>u. ''JSONMarshaler'')]" "''json''"
      "\<lambda>u. ''other''" "Some (\<lambda>u. ''other'')" "Map.empty" "\<lambda>u. ''JSONMarshaler''"]
    registry_never_replaces [of "[''json'' \<mapsto> (\<lambda>u. ''JSONMarshaler'')]" "''msgpack''"
      "\<lambda>u. ''Msgpack''" "Some (\<lambda>u. ''Msgpack'')"
      "[''json'' \<mapsto> (\<lambda>u. ''JSONMarshaler''), ''msgpack'' \<mapsto> (\<lambda>u. ''Msgpack'')]"
      "\<lambda>u. ''Msgpack''"]
    registry_never_replaces [of "[''json'' \<mapsto> (\<lambda>u. ''JSONMarshaler'')]" "''gob''"
      "\<lambda>u. ''Gob''" None "Map.empty" "\<lambda>u. ''Gob''"]
  by (simp add: RegisterMarshaler_def NewMarshaler_def)

end
